theory Spec2Isabelle
  imports Main "HOL-Library.Multiset" "HOL-Library.Sublist"
begin

section \<open>Strings\<close>

text \<open>
  A Python \<open>str\<close> is modelled as the \<open>string\<close> of its UTF-8 bytes. The operations used
  by the script are \<open>str.lower\<close>, \<open>sep.join(parts)\<close> and the substring test
  \<open>kw in text\<close>.

  \<open>str.lower\<close> follows the Unicode tables of the interpreter. On a string of ASCII
  characters it turns the capitals \<open>A\<close> to \<open>Z\<close> into small letters and leaves every
  other character as it is; that part is written out. On a string that holds any other
  character its result is the parameter \<open>unicode_lower\<close> of the model.
\<close>

definition is_ascii :: "char \<Rightarrow> bool" where
  "is_ascii c = (\<not> digit7 c)"

definition lower_char :: "char \<Rightarrow> char" where
  "lower_char c =
     (case map_of (zip ''ABCDEFGHIJKLMNOPQRSTUVWXYZ'' ''abcdefghijklmnopqrstuvwxyz'') c of
        None \<Rightarrow> c
      | Some l \<Rightarrow> l)"

definition lower :: "(string \<Rightarrow> string) \<Rightarrow> string \<Rightarrow> string" where
  "lower unicode_lower s =
     (if list_all is_ascii s then map lower_char s else unicode_lower s)"

fun join :: "string \<Rightarrow> string list \<Rightarrow> string" where
  "join sep [] = []"
| "join sep [p] = p"
| "join sep (p # q # ps) = p @ sep @ join sep (q # ps)"

fun startswith :: "string \<Rightarrow> string \<Rightarrow> bool" where
  "startswith [] text = True"
| "startswith (k # ks) [] = False"
| "startswith (k # ks) (c # cs) = (k = c \<and> startswith ks cs)"

text \<open>\<open>contains kw text\<close> is Python's \<open>kw in text\<close>: \<open>kw\<close> occurs in \<open>text\<close> as a
  contiguous run of characters.\<close>

fun contains :: "string \<Rightarrow> string \<Rightarrow> bool" where
  "contains kw [] = (kw = [])"
| "contains kw (c # cs) = (startswith kw (c # cs) \<or> contains kw cs)"

text \<open>Truthiness of an optional string: \<open>None\<close> and the empty string are false.\<close>

definition truthy :: "string option \<Rightarrow> bool" where
  "truthy v = (case v of None \<Rightarrow> False | Some s \<Rightarrow> s \<noteq> [])"

section \<open>The genre table\<close>

text \<open>\<open>GENRE_KEYWORDS\<close> is a dict literal; a dict iterates in insertion order, so it is an
  association list in declaration order.\<close>

definition GENRE_KEYWORDS :: "(string \<times> string list) list" where
  "GENRE_KEYWORDS =
    [(''MOBA'',
        [''mobile legends'', ''mlbb'', ''arena of valor'', ''aov'', ''league of legends'',
         ''lol pc'', ''wild rift'', ''dota 2'', ''ml'', ''dota'']),
     (''FPS'',
        [''valorant'', ''csgo'', ''counter strike'', ''cs2'', ''call of duty'', ''codm'',
         ''apex legends'', ''overwatch'', ''valo'', ''delta force'']),
     (''Battle Royale'',
        [''pubg'', ''pubg mobile'', ''free fire'', ''ff'', ''fortnite'', ''warzone'']),
     (''RPG'',
        [''genshin impact'', ''honkai star rail'', ''star rail'',
         ''zenless zone zero'', ''zzz'', ''elden ring'', ''final fantasy'',
         ''persona'', ''rpg'']),
     (''Horror'',
        [''outlast'', ''amnesia'', ''phasmophobia'', ''poppy playtime'',
         ''fnaf'', ''five nights at freddy'', ''horror game'', ''game horror'']),
     (''Sandbox'',
        [''minecraft'', ''roblox'', ''terraria'', ''sandbox'']),
     (''Sports'',
        [''fifa'', ''ea fc'', ''pes'', ''efootball'', ''nba 2k'', ''football manager'']),
     (''Racing'',
        [''forza'', ''gran turismo'', ''need for speed'', ''nfs'', ''f1 23'', ''f1 24'',
         ''assetto corsa'']),
     (''Strategy'',
        [''age of empires'', ''civilization'', ''clash of clans'', ''coc'',
         ''clash royale'', ''strategy game'']),
     (''Casual/Party'',
        [''stumble guys'', ''fall guys'', ''party game'', ''jackbox'']),
     (''Simulation'',
        [''bus simulator'', ''truck simulator'', ''ets2'', ''euro truck'',
         ''simulator'', ''driving simulator'', ''farming simulator'',
         ''train simulator'', ''flight simulator''])]"

section \<open>Python sets of strings\<close>

text \<open>
  \<open>detect_genres_from_text\<close> collects the genres in a \<open>set()\<close> and returns
  \<open>list(found_genres)\<close>. Python promises no iteration order for a set. The interpreter
  lists the keys in the order of their positions in the hash table of the set, and the
  position of a key comes from the hash of the string, which changes from one interpreter
  process to the next, from the size of the table and from the keys stored before it. So
  the position is a parameter of the model: \<open>slot keys k\<close> is the position of the key
  \<open>k\<close> in the table of the set built by storing \<open>keys\<close> in this order.

  A set is kept as the list of its keys in the order they were stored; \<open>set_add\<close> is
  \<open>set.add\<close>, and \<open>list_of_set\<close> is \<open>list(s)\<close>: the keys by ascending position.
\<close>

type_synonym pyset = "string list"

definition set_add :: "string \<Rightarrow> pyset \<Rightarrow> pyset" where
  "set_add x s = (if x \<in> set s then s else s @ [x])"

definition list_of_set :: "(string list \<Rightarrow> string \<Rightarrow> nat) \<Rightarrow> pyset \<Rightarrow> string list" where
  "list_of_set slot s = sort_key (slot s) s"

section \<open>detect_genres_from_text\<close>

text \<open>The inner loop: the keywords of one genre are tried in order, and the first hit
  ends the loop (\<open>break\<close>).\<close>

fun any_keyword :: "(string \<Rightarrow> string) \<Rightarrow> string \<Rightarrow> string list \<Rightarrow> bool" where
  "any_keyword unicode_lower text [] = False"
| "any_keyword unicode_lower text (kw # kws) =
     (if contains (lower unicode_lower kw) text then True
      else any_keyword unicode_lower text kws)"

text \<open>The outer loop over \<open>GENRE_KEYWORDS.items()\<close>, threading \<open>found_genres\<close>.\<close>

fun scan_genres ::
  "(string \<Rightarrow> string) \<Rightarrow> string \<Rightarrow> (string \<times> string list) list \<Rightarrow> pyset \<Rightarrow> pyset" where
  "scan_genres unicode_lower text [] found_genres = found_genres"
| "scan_genres unicode_lower text ((genre, keywords) # rest) found_genres =
     scan_genres unicode_lower text rest
       (if any_keyword unicode_lower text keywords then set_add genre found_genres
        else found_genres)"

text \<open>\<open>if v: parts.append(v)\<close> for one of the three fields.\<close>

definition part :: "string option \<Rightarrow> string list" where
  "part v = (case v of None \<Rightarrow> [] | Some s \<Rightarrow> if s \<noteq> [] then [s] else [])"

definition text_parts :: "string option \<Rightarrow> string option \<Rightarrow> string option \<Rightarrow> string list" where
  "text_parts title description tags = part title @ part description @ part tags"

definition detect_genres_from_text ::
  "(string \<Rightarrow> string) \<Rightarrow> (string list \<Rightarrow> string \<Rightarrow> nat)
     \<Rightarrow> string option \<Rightarrow> string option \<Rightarrow> string option \<Rightarrow> string list" where
  "detect_genres_from_text unicode_lower slot title description tags =
     (let parts = text_parts title description tags in
      if parts = [] then []
      else list_of_set slot
             (scan_genres unicode_lower (lower unicode_lower (join '' '' parts))
                GENRE_KEYWORDS []))"

text \<open>The genres that have a keyword in the text, in the order of the table: the sequence
  of \<open>found_genres.add(genre)\<close> calls of the loop.\<close>

definition matched_genres ::
  "(string \<Rightarrow> string) \<Rightarrow> string \<Rightarrow> (string \<times> string list) list \<Rightarrow> string list" where
  "matched_genres unicode_lower text table =
     map fst (filter (\<lambda>(genre, keywords). any_keyword unicode_lower text keywords) table)"

text \<open>The text the keywords are searched in.\<close>

definition joined_text ::
  "(string \<Rightarrow> string) \<Rightarrow> string option \<Rightarrow> string option \<Rightarrow> string option \<Rightarrow> string" where
  "joined_text unicode_lower title description tags =
     lower unicode_lower (join '' '' (text_parts title description tags))"

text \<open>A list of genres is in table order when it is the run of the table's genre names
  that it contains.\<close>

definition table_ordered :: "string list \<Rightarrow> bool" where
  "table_ordered gs = (gs = filter (\<lambda>g. g \<in> set gs) (map fst GENRE_KEYWORDS))"

text \<open>Positions under which \<open>FPS\<close> lies before every other genre name, whatever the
  keys of the set are; and a case mapping for the other characters, which the ASCII
  examples below never reach.\<close>

definition fps_first :: "string list \<Rightarrow> string \<Rightarrow> nat" where
  "fps_first keys g = (if g = ''FPS'' then 0 else 1)"

definition ascii_lower :: "string \<Rightarrow> string" where
  "ascii_lower s = map lower_char s"

section \<open>Tables\<close>

text \<open>
  A \<open>DataFrame\<close> is the list of its rows. The rows built by \<open>youtube_get_videos_stats\<close>
  have the eleven columns of \<open>video\<close>; \<open>title\<close>, \<open>description\<close> and the other
  \<open>snippet.get(...)\<close> columns hold \<open>None\<close> when the key is missing, \<open>tags\<close> is always a
  string. \<open>add_primary_genre_column\<close> adds the columns \<open>genres_list\<close> and
  \<open>primary_genre\<close> one after the other, \<open>clean_for_modelling\<close> adds the column
  \<open>text\<close> (field \<open>text_col\<close>).
\<close>

record video =
  video_id :: string
  title :: "string option"
  description :: "string option"
  tags :: string
  channel_id :: "string option"
  channel_title :: "string option"
  published_at :: "string option"
  view_count :: int
  like_count :: int
  comment_count :: int
  duration :: "string option"

record with_genres = video +
  genres_list :: "string list"

record tagged = with_genres +
  primary_genre :: "string option"

record model_ready = tagged +
  text_col :: string

text \<open>\<open>df[name] = values\<close> for a new column: row \<open>i\<close> receives \<open>values[i]\<close>. The three
  assignments of the script each give a list with one value per row.\<close>

definition set_genres_list :: "video list \<Rightarrow> string list list \<Rightarrow> with_genres list" where
  "set_genres_list df vals = map2 (\<lambda>row v. video.extend row (with_genres.fields v)) df vals"

definition set_primary_genre :: "with_genres list \<Rightarrow> string option list \<Rightarrow> tagged list" where
  "set_primary_genre df vals = map2 (\<lambda>row v. with_genres.extend row (tagged.fields v)) df vals"

definition set_text :: "tagged list \<Rightarrow> string list \<Rightarrow> model_ready list" where
  "set_text df vals = map2 (\<lambda>row v. tagged.extend row (model_ready.fields v)) df vals"

section \<open>add_primary_genre_column\<close>

text \<open>\<open>g_list[0] if g_list else None\<close>\<close>

definition first_or_none :: "string list \<Rightarrow> string option" where
  "first_or_none g_list = (case g_list of [] \<Rightarrow> None | g # _ \<Rightarrow> Some g)"

definition row_genres ::
  "(string \<Rightarrow> string) \<Rightarrow> (string list \<Rightarrow> string \<Rightarrow> nat) \<Rightarrow> 'a video_scheme \<Rightarrow> string list" where
  "row_genres unicode_lower slot row =
     detect_genres_from_text unicode_lower slot (title row) (description row)
       (Some (tags row))"

definition add_primary_genre_column ::
  "(string \<Rightarrow> string) \<Rightarrow> (string list \<Rightarrow> string \<Rightarrow> nat) \<Rightarrow> video list \<Rightarrow> tagged list" where
  "add_primary_genre_column unicode_lower slot df_videos =
     (let genres_all = map (row_genres unicode_lower slot) df_videos;
          primary = map first_or_none genres_all
      in set_primary_genre (set_genres_list df_videos genres_all) primary)"

section \<open>clean_for_modelling\<close>

text \<open>\<open>dropna(subset=["primary_genre"])\<close>\<close>

definition dropna_primary_genre :: "tagged list \<Rightarrow> tagged list" where
  "dropna_primary_genre df = filter (\<lambda>row. primary_genre row \<noteq> None) df"

text \<open>\<open>Series.value_counts()\<close>: missing values are not counted; one entry per distinct
  value, the most frequent first.\<close>

definition value_counts :: "string option list \<Rightarrow> (string \<times> nat) list" where
  "value_counts col =
     (let vals = List.map_filter id col
      in sort_key (\<lambda>(g, c). - int c) (map (\<lambda>g. (g, count_list vals g)) (remdups vals)))"

text \<open>\<open>genre_counts[genre_counts >= min_samples].index.tolist()\<close>\<close>

definition valid_genres_of :: "(string \<times> nat) list \<Rightarrow> int \<Rightarrow> string list" where
  "valid_genres_of genre_counts min_samples =
     map fst (filter (\<lambda>(g, c). min_samples \<le> int c) genre_counts)"

text \<open>\<open>df[df["primary_genre"].isin(valid_genres)]\<close>\<close>

definition isin :: "string option \<Rightarrow> string list \<Rightarrow> bool" where
  "isin v vals = (case v of None \<Rightarrow> False | Some g \<Rightarrow> g \<in> set vals)"

definition filter_isin :: "tagged list \<Rightarrow> string list \<Rightarrow> tagged list" where
  "filter_isin df valid_genres = filter (\<lambda>row. isin (primary_genre row) valid_genres) df"

text \<open>\<open>combine_text\<close> keeps every column value that is a string, the empty one too.\<close>

definition str_part :: "string option \<Rightarrow> string list" where
  "str_part v = (case v of None \<Rightarrow> [] | Some s \<Rightarrow> [s])"

definition combine_text :: "'a video_scheme \<Rightarrow> string" where
  "combine_text row = join '' '' (str_part (title row) @ str_part (description row) @ [tags row])"

definition clean_for_modelling :: "tagged list \<Rightarrow> int \<Rightarrow> model_ready list" where
  "clean_for_modelling df_with_genre min_samples =
     (let df_clf = dropna_primary_genre df_with_genre;
          genre_counts = value_counts (map primary_genre df_clf);
          valid_genres = valid_genres_of genre_counts min_samples;
          df_clf = filter_isin df_clf valid_genres
      in set_text df_clf (map combine_text df_clf))"

section \<open>Deduplication of identifiers\<close>

text \<open>
  \<open>list(dict.fromkeys(video_ids))\<close>. A dict keeps its keys in insertion order, and storing
  under a key that is already present leaves the key where it is. The dict is an
  association list; \<open>dict.fromkeys\<close> stores \<open>None\<close> (here \<open>()\<close>) under each key in turn,
  and \<open>list(d)\<close> lists the keys.
\<close>

fun dict_setitem :: "'k \<Rightarrow> 'v \<Rightarrow> ('k \<times> 'v) list \<Rightarrow> ('k \<times> 'v) list" where
  "dict_setitem k v [] = [(k, v)]"
| "dict_setitem k v ((k', v') # d) =
     (if k' = k then (k, v) # d else (k', v') # dict_setitem k v d)"

definition dict_fromkeys :: "'k list \<Rightarrow> ('k \<times> unit) list" where
  "dict_fromkeys ks = fold (\<lambda>k d. dict_setitem k () d) ks []"

definition dedup_ids :: "'k list \<Rightarrow> 'k list" where
  "dedup_ids video_ids = map fst (dict_fromkeys video_ids)"



section \<open>youtube_search\<close>

datatype error = RuntimeError | HTTPError | KeyError | ValueError

text \<open>The query parameters of one search request. \<open>publishedAfter\<close>, \<open>publishedBefore\<close>
  and \<open>pageToken\<close> are present only when the script sets them.\<close>

record search_params =
  sp_key :: string
  sp_part :: string
  sp_type :: string
  sp_q :: string
  sp_maxResults :: nat
  sp_order :: string
  sp_regionCode :: string
  sp_publishedAfter :: "string option"
  sp_publishedBefore :: "string option"
  sp_pageToken :: "string option"

text \<open>One page of the answer: for each item the value of \<open>item["id"]["videoId"]\<close>
  (\<open>None\<close> when a key is missing), and the next-page token. A missing \<open>items\<close> key is the
  empty list.\<close>

record search_page =
  sr_items :: "string option list"
  sr_nextPageToken :: "string option"

text \<open>The endpoint is the environment: it answers a request from its own state \<open>'s\<close> and
  moves to a new state. \<open>None\<close> is an answer on which \<open>raise_for_status\<close> raises.\<close>

type_synonym 's search_endpoint = "'s \<Rightarrow> search_params \<Rightarrow> search_page option \<times> 's"

definition present :: "string option \<Rightarrow> string option" where
  "present v = (if truthy v then v else None)"

definition search_request ::
  "string \<Rightarrow> string \<Rightarrow> nat \<Rightarrow> string option \<Rightarrow> string option \<Rightarrow> string option \<Rightarrow> search_params" where
  "search_request api_key query to_fetch published_after published_before next_page_token =
     \<lparr>sp_key = api_key, sp_part = ''snippet'', sp_type = ''video'', sp_q = query,
      sp_maxResults = to_fetch, sp_order = ''viewCount'', sp_regionCode = ''ID'',
      sp_publishedAfter = present published_after,
      sp_publishedBefore = present published_before,
      sp_pageToken = present next_page_token\<rparr>"

text \<open>
  The \<open>while fetched < max_results\<close> loop. Nothing bounds the number of its rounds (a
  page may be empty and still carry a token), so the model takes fuel: one unit per
  evaluation of the loop condition, and \<open>None\<close> when it runs out. \<open>max_results\<close> is a
  number of results, a natural number. The pause between two pages is left out.
\<close>

primrec search_loop ::
  "nat \<Rightarrow> 's search_endpoint \<Rightarrow> 's \<Rightarrow> string \<Rightarrow> string \<Rightarrow> nat \<Rightarrow> string option \<Rightarrow> string option
     \<Rightarrow> string list \<Rightarrow> string option \<Rightarrow> nat \<Rightarrow> (error + string list) option" where
  "search_loop 0 ep s api_key query max_results published_after published_before
     video_ids next_page_token fetched = None"
| "search_loop (Suc fuel) ep s api_key query max_results published_after published_before
     video_ids next_page_token fetched =
     (if fetched < max_results then
        (let to_fetch = min 50 (max_results - fetched);
             params = search_request api_key query to_fetch published_after published_before
                        next_page_token
         in case ep s params of
              (None, s') \<Rightarrow> Some (Inl HTTPError)
            | (Some data, s') \<Rightarrow>
                (case those (sr_items data) of
                   None \<Rightarrow> Some (Inl KeyError)
                 | Some ids \<Rightarrow>
                     if truthy (sr_nextPageToken data)
                     then search_loop fuel ep s' api_key query max_results published_after
                            published_before (video_ids @ ids) (sr_nextPageToken data)
                            (fetched + length (sr_items data))
                     else Some (Inr (video_ids @ ids))))
      else Some (Inr video_ids))"









section \<open>youtube_get_videos_stats\<close>

record details_params =
  dp_key :: string
  dp_part :: string
  dp_id :: string

text \<open>An item of the details answer, with the keys the script reads. Each key may be
  missing; the value under \<open>tags\<close> is a list of strings or something else.\<close>

datatype tags_json = TagsList "string list" | TagsOther

record snippet_json =
  sn_title :: "string option"
  sn_description :: "string option"
  sn_tags :: "tags_json option"
  sn_channelId :: "string option"
  sn_channelTitle :: "string option"
  sn_publishedAt :: "string option"

record statistics_json =
  st_viewCount :: "string option"
  st_likeCount :: "string option"
  st_commentCount :: "string option"

record details_item =
  it_id :: "string option"
  it_snippet :: "snippet_json option"
  it_statistics :: "statistics_json option"
  it_contentDetails :: "string option option"

type_synonym 's details_endpoint = "'s \<Rightarrow> details_params \<Rightarrow> details_item list option \<times> 's"

text \<open>\<open>item.get("snippet", {})\<close> and \<open>item.get("statistics", {})\<close>: a missing object reads
  as the empty one.\<close>

definition snippet_of :: "details_item \<Rightarrow> snippet_json" where
  "snippet_of item =
     (case it_snippet item of
        None \<Rightarrow> \<lparr>sn_title = None, sn_description = None, sn_tags = None, sn_channelId = None,
                 sn_channelTitle = None, sn_publishedAt = None\<rparr>
      | Some snippet \<Rightarrow> snippet)"

definition statistics_of :: "details_item \<Rightarrow> statistics_json" where
  "statistics_of item =
     (case it_statistics item of
        None \<Rightarrow> \<lparr>st_viewCount = None, st_likeCount = None, st_commentCount = None\<rparr>
      | Some stats \<Rightarrow> stats)"

definition duration_of :: "details_item \<Rightarrow> string option" where
  "duration_of item = (case it_contentDetails item of None \<Rightarrow> None | Some d \<Rightarrow> d)"

text \<open>\<open>tags = snippet.get("tags", [])\<close>, joined with \<open>|\<close> when it is a list.\<close>

definition tags_joined :: "snippet_json \<Rightarrow> string" where
  "tags_joined snippet =
     (case sn_tags snippet of
        None \<Rightarrow> join ''|'' []
      | Some (TagsList tag_list) \<Rightarrow> join ''|'' tag_list
      | Some TagsOther \<Rightarrow> [])"

text \<open>\<open>int(stats.get(name, 0))\<close>. The conversion of a string by \<open>int\<close> belongs to the
  interpreter and is the parameter \<open>parse_int\<close>; \<open>None\<close> is its \<open>ValueError\<close>.\<close>

definition counter :: "(string \<Rightarrow> int option) \<Rightarrow> string option \<Rightarrow> error + int" where
  "counter parse_int v =
     (case v of
        None \<Rightarrow> Inr 0
      | Some s \<Rightarrow> (case parse_int s of None \<Rightarrow> Inl ValueError | Some n \<Rightarrow> Inr n))"

definition make_record :: "(string \<Rightarrow> int option) \<Rightarrow> details_item \<Rightarrow> error + video" where
  "make_record parse_int item =
     (case it_id item of
        None \<Rightarrow> Inl KeyError
      | Some vid \<Rightarrow>
          (let snippet = snippet_of item; stats = statistics_of item in
           case counter parse_int (st_viewCount stats) of
             Inl e \<Rightarrow> Inl e
           | Inr views \<Rightarrow>
               (case counter parse_int (st_likeCount stats) of
                  Inl e \<Rightarrow> Inl e
                | Inr likes \<Rightarrow>
                    (case counter parse_int (st_commentCount stats) of
                       Inl e \<Rightarrow> Inl e
                     | Inr comments \<Rightarrow>
                         Inr \<lparr>video_id = vid, title = sn_title snippet,
                              description = sn_description snippet,
                              tags = tags_joined snippet,
                              channel_id = sn_channelId snippet,
                              channel_title = sn_channelTitle snippet,
                              published_at = sn_publishedAt snippet,
                              view_count = views, like_count = likes,
                              comment_count = comments,
                              duration = duration_of item\<rparr>))))"

text \<open>The loop over the items of one answer; the first item that raises ends the call.\<close>

primrec make_records :: "(string \<Rightarrow> int option) \<Rightarrow> details_item list \<Rightarrow> error + video list" where
  "make_records parse_int [] = Inr []"
| "make_records parse_int (item # items) =
     (case make_record parse_int item of
        Inl e \<Rightarrow> Inl e
      | Inr row \<Rightarrow>
          (case make_records parse_int items of
             Inl e \<Rightarrow> Inl e
           | Inr rows \<Rightarrow> Inr (row # rows)))"

text \<open>\<open>range(i, stop, 50)\<close>\<close>

function range50 :: "nat \<Rightarrow> nat \<Rightarrow> nat list" where
  "range50 i stop = (if i < stop then i # range50 (i + 50) stop else [])"
  by pat_completeness auto
termination
  by (relation "measure (\<lambda>(i, stop). stop - i)") auto

declare range50.simps [simp del]

definition details_request :: "string \<Rightarrow> string list \<Rightarrow> details_params" where
  "details_request api_key chunk =
     \<lparr>dp_key = api_key, dp_part = ''snippet,statistics,contentDetails'',
      dp_id = join '','' chunk\<rparr>"

text \<open>The loop over the chunk starts. Beside the records it returns the requests it has
  sent, in order. The pause after each chunk is left out.\<close>

primrec stats_loop ::
  "(string \<Rightarrow> int option) \<Rightarrow> 's details_endpoint \<Rightarrow> string \<Rightarrow> string list \<Rightarrow> nat list
     \<Rightarrow> 's \<Rightarrow> video list \<Rightarrow> details_params list \<Rightarrow> (error + video list) \<times> details_params list" where
  "stats_loop parse_int ep api_key video_ids [] s records sent = (Inr records, sent)"
| "stats_loop parse_int ep api_key video_ids (i # starts) s records sent =
     (let chunk = take 50 (drop i video_ids);
          params = details_request api_key chunk
      in case ep s params of
           (None, s') \<Rightarrow> (Inl HTTPError, sent @ [params])
         | (Some items, s') \<Rightarrow>
             (case make_records parse_int items of
                Inl e \<Rightarrow> (Inl e, sent @ [params])
              | Inr new \<Rightarrow>
                  stats_loop parse_int ep api_key video_ids starts s' (records @ new)
                    (sent @ [params])))"

definition youtube_get_videos_stats ::
  "(string \<Rightarrow> int option) \<Rightarrow> 's details_endpoint \<Rightarrow> 's \<Rightarrow> string option \<Rightarrow> string list
     \<Rightarrow> (error + video list) \<times> details_params list" where
  "youtube_get_videos_stats parse_int ep s API_KEY video_ids =
     (case API_KEY of
        None \<Rightarrow> (Inl RuntimeError, [])
      | Some api_key \<Rightarrow>
          if api_key = [] then (Inl RuntimeError, [])
          else stats_loop parse_int ep api_key video_ids (range50 0 (length video_ids)) s [] [])"

text \<open>The chunks \<open>video_ids[i:i+50]\<close> of the loop, in order.\<close>

definition chunks :: "string list \<Rightarrow> string list list" where
  "chunks video_ids = map (\<lambda>i. take 50 (drop i video_ids)) (range50 0 (length video_ids))"

section \<open>Tables as objects\<close>

text \<open>
  A \<open>DataFrame\<close> is an object: a variable holds a reference to it, and
  \<open>df[name] = values\<close> changes the object the variable refers to. To say which tables a
  function changes, the tables live in a store, a list of frames addressed by position.
  A pandas operation that builds a table (\<open>copy\<close>, \<open>dropna\<close>, selection by a mask)
  appends a frame to the store and yields its address; a column assignment rewrites the
  frame at the address it is given.
\<close>

datatype frame =
    Videos "video list"
  | WithGenres "with_genres list"
  | Tagged "tagged list"
  | ModelReady "model_ready list"

type_synonym store = "frame list"

definition frame_at :: "store \<Rightarrow> nat \<Rightarrow> frame option" where
  "frame_at st a = (if a < length st then Some (st ! a) else None)"

definition new_frame :: "frame \<Rightarrow> store \<Rightarrow> nat \<times> store" where
  "new_frame f st = (length st, st @ [f])"

text \<open>\<open>df.copy()\<close>\<close>

definition copy_frame :: "nat \<Rightarrow> store \<Rightarrow> (nat \<times> store) option" where
  "copy_frame a st = (case frame_at st a of None \<Rightarrow> None | Some f \<Rightarrow> Some (new_frame f st))"

text \<open>The three column assignments, in place. Each is defined on the shape of table
  the script applies it to.\<close>

definition assign_genres_list :: "nat \<Rightarrow> string list list \<Rightarrow> store \<Rightarrow> store option" where
  "assign_genres_list a vals st =
     (case frame_at st a of
        Some (Videos df) \<Rightarrow> Some (st[a := WithGenres (set_genres_list df vals)])
      | _ \<Rightarrow> None)"

definition assign_primary_genre :: "nat \<Rightarrow> string option list \<Rightarrow> store \<Rightarrow> store option" where
  "assign_primary_genre a vals st =
     (case frame_at st a of
        Some (WithGenres df) \<Rightarrow> Some (st[a := Tagged (set_primary_genre df vals)])
      | _ \<Rightarrow> None)"

definition assign_text :: "nat \<Rightarrow> string list \<Rightarrow> store \<Rightarrow> store option" where
  "assign_text a vals st =
     (case frame_at st a of
        Some (Tagged df) \<Rightarrow> Some (st[a := ModelReady (set_text df vals)])
      | _ \<Rightarrow> None)"

text \<open>
  \<open>add_primary_genre_column\<close> on references: the loop reads the rows of the argument,
  then the local name \<open>df_videos\<close> is bound to a copy, and both assignments go to the
  copy. The result is \<open>None\<close> when the argument is not the address of a table of video
  rows, about which the model says nothing.
\<close>

definition add_primary_genre_column_obj ::
  "(string \<Rightarrow> string) \<Rightarrow> (string list \<Rightarrow> string \<Rightarrow> nat) \<Rightarrow> nat \<Rightarrow> store
     \<Rightarrow> (nat \<times> store) option" where
  "add_primary_genre_column_obj unicode_lower slot df_videos st =
     (case frame_at st df_videos of
        Some (Videos rows) \<Rightarrow>
          (let genres_all = map (row_genres unicode_lower slot) rows;
               primary = map first_or_none genres_all
           in Option.bind (copy_frame df_videos st) (\<lambda>(df_videos', st1).
              Option.bind (assign_genres_list df_videos' genres_all st1) (\<lambda>st2.
              Option.bind (assign_primary_genre df_videos' primary st2) (\<lambda>st3.
              Some (df_videos', st3)))))
      | _ \<Rightarrow> None)"

text \<open>
  \<open>clean_for_modelling\<close> on references: \<open>dropna\<close> builds a table and \<open>copy\<close> copies
  it; the selection by the \<open>isin\<close> mask builds a table and \<open>copy\<close> copies it; the
  \<open>text\<close> column is assigned to that last copy, which is returned.
\<close>

definition clean_for_modelling_obj :: "nat \<Rightarrow> int \<Rightarrow> store \<Rightarrow> (nat \<times> store) option" where
  "clean_for_modelling_obj df_with_genre min_samples st =
     (case frame_at st df_with_genre of
        Some (Tagged rows) \<Rightarrow>
          (let (dropped, st1) = new_frame (Tagged (dropna_primary_genre rows)) st
           in Option.bind (copy_frame dropped st1) (\<lambda>(df_clf, st2).
              case frame_at st2 df_clf of
                Some (Tagged rows_clf) \<Rightarrow>
                  (let genre_counts = value_counts (map primary_genre rows_clf);
                       valid_genres = valid_genres_of genre_counts min_samples;
                       (selected, st3) = new_frame (Tagged (filter_isin rows_clf valid_genres)) st2
                   in Option.bind (copy_frame selected st3) (\<lambda>(df_clf', st4).
                      case frame_at st4 df_clf' of
                        Some (Tagged rows_sel) \<Rightarrow>
                          Option.bind (assign_text df_clf' (map combine_text rows_sel) st4)
                            (\<lambda>st5. Some (df_clf', st5))
                      | _ \<Rightarrow> None))
              | _ \<Rightarrow> None))
      | _ \<Rightarrow> None)"

section \<open>Example inputs\<close>

definition demo_row :: "string \<Rightarrow> string option \<Rightarrow> string \<Rightarrow> video" where
  "demo_row vid ttl tgs =
     \<lparr>video_id = vid, title = ttl, description = None, tags = tgs, channel_id = None,
      channel_title = None, published_at = None, view_count = 0, like_count = 0,
      comment_count = 0, duration = None\<rparr>"

definition demo_videos :: "video list" where
  "demo_videos =
     [demo_row ''a'' (Some ''Main Mobile Legends rank push'') [],
      demo_row ''b'' (Some ''daily vlog'') ''travel'',
      demo_row ''c'' None ''valorant|fps'']"

definition demo_tagged :: "string \<Rightarrow> string option \<Rightarrow> tagged" where
  "demo_tagged vid g =
     with_genres.extend
       (video.extend (demo_row vid None []) (with_genres.fields (case g of None \<Rightarrow> [] | Some x \<Rightarrow> [x])))
       (tagged.fields g)"

text \<open>Nineteen rows of one genre, twenty of another, and a row without a genre.\<close>

definition demo_table :: "tagged list" where
  "demo_table =
     replicate 19 (demo_tagged ''f'' (Some ''FPS'')) @ [demo_tagged ''n'' None]
       @ replicate 20 (demo_tagged ''m'' (Some ''MOBA''))"

text \<open>Plain decimal numerals, as the details endpoint writes its counters.\<close>

definition digit_value :: "char \<Rightarrow> int option" where
  "digit_value c = map_of (zip ''0123456789'' [0, 1, 2, 3, 4, 5, 6, 7, 8, 9]) c"

definition decimal :: "string \<Rightarrow> int option" where
  "decimal s =
     (if s = [] then None
      else fold (\<lambda>c acc. case (acc, digit_value c) of
                            (Some n, Some d) \<Rightarrow> Some (10 * n + d)
                          | _ \<Rightarrow> None) s (Some 0))"

definition demo_item :: details_item where
  "demo_item =
     \<lparr>it_id = Some ''c'',
      it_snippet = Some \<lparr>sn_title = Some ''Ranked'', sn_description = None,
                          sn_tags = Some (TagsList [''valorant'', ''fps'']),
                          sn_channelId = None, sn_channelTitle = None, sn_publishedAt = None\<rparr>,
      it_statistics = Some \<lparr>st_viewCount = Some ''1500'', st_likeCount = None,
                             st_commentCount = Some ''7''\<rparr>,
      it_contentDetails = Some (Some ''PT4M'')\<rparr>"

text \<open>A details endpoint that answers every request with that one item, and fifty-one
  distinct identifiers.\<close>

definition demo_details :: "unit details_endpoint" where
  "demo_details s params = (Some [demo_item], s)"

definition demo_ids :: "string list" where
  "demo_ids = map (\<lambda>n. replicate n (CHR ''x'')) [1..<52]"

section \<open>Auxiliary functions of the proofs\<close>

text \<open>The keys of a dict after storing a run of keys: each new key goes to the end.\<close>

primrec add_keys :: "'k list \<Rightarrow> 'k list \<Rightarrow> 'k list" where
  "add_keys [] acc = acc"
| "add_keys (k # ks) acc = add_keys ks (if k \<in> set acc then acc else acc @ [k])"

text \<open>The row that \<open>add_primary_genre_column\<close> makes of a row, and the row that
  \<open>clean_for_modelling\<close> makes of a row it keeps.\<close>

definition tag_row ::
  "(string \<Rightarrow> string) \<Rightarrow> (string list \<Rightarrow> string \<Rightarrow> nat) \<Rightarrow> video \<Rightarrow> tagged" where
  "tag_row unicode_lower slot row =
     with_genres.extend
       (video.extend row (with_genres.fields (row_genres unicode_lower slot row)))
       (tagged.fields (first_or_none (row_genres unicode_lower slot row)))"

definition text_row :: "tagged \<Rightarrow> model_ready" where
  "text_row row = tagged.extend row (model_ready.fields (combine_text row))"

text \<open>The number of rows of a genre, and the rows that pass the threshold.\<close>

definition genre_count :: "tagged list \<Rightarrow> string \<Rightarrow> nat" where
  "genre_count df g = length (filter (\<lambda>row. primary_genre row = Some g) df)"

definition kept :: "tagged list \<Rightarrow> int \<Rightarrow> tagged \<Rightarrow> bool" where
  "kept df min_samples row =
     (case primary_genre row of
        None \<Rightarrow> False
      | Some g \<Rightarrow> min_samples \<le> int (genre_count df g))"

section \<open>Properties of the genre detection\<close>

lemma any_keyword_iff:
  "any_keyword ul text kws \<longleftrightarrow> (\<exists>kw \<in> set kws. contains (lower ul kw) text)"
  by (induction kws) auto

lemma scan_genres_fold:
  "scan_genres ul text table found = fold set_add (matched_genres ul text table) found"
  by (induction table arbitrary: found) (auto simp: matched_genres_def)

text \<open>Storing keys that are new and differ from each other puts them at the end, in
  order.\<close>

lemma fold_set_add_new:
  "distinct xs \<Longrightarrow> set xs \<inter> set s = {} \<Longrightarrow> fold set_add xs s = s @ xs"
proof (induction xs arbitrary: s)
  case Nil
  then show ?case by simp
next
  case (Cons x xs)
  from Cons.prems have x: "x \<notin> set s" and d: "distinct xs"
    and i: "set xs \<inter> set (s @ [x]) = {}" by auto
  from x have "set_add x s = s @ [x]" by (simp add: set_add_def)
  with Cons.IH [OF d i] show ?case by simp
qed

lemma distinct_genre_names: "distinct (map fst GENRE_KEYWORDS)"
  by (simp add: GENRE_KEYWORDS_def)

lemma distinct_matched_genres: "distinct (matched_genres ul text GENRE_KEYWORDS)"
  unfolding matched_genres_def by (rule distinct_map_filter) (rule distinct_genre_names)

lemma scan_genres_matched:
  "scan_genres ul text GENRE_KEYWORDS [] = matched_genres ul text GENRE_KEYWORDS"
  using fold_set_add_new [OF distinct_matched_genres, where s = "[]"]
  by (simp add: scan_genres_fold)

lemma detect_genres_unfold:
  "detect_genres_from_text ul slot ttl dsc tgs =
     (if text_parts ttl dsc tgs = [] then []
      else list_of_set slot (matched_genres ul (joined_text ul ttl dsc tgs) GENRE_KEYWORDS))"
  by (simp add: detect_genres_from_text_def joined_text_def scan_genres_matched Let_def)

lemma list_of_set_Nil_iff: "list_of_set slot s = [] \<longleftrightarrow> s = []"
  by (metis list_of_set_def length_sort length_0_conv)

text \<open>Whatever the positions of the keys are, the list returned holds exactly the
  matched genres, each once.\<close>

lemma detect_genres_rearranged:
  assumes "text_parts ttl dsc tgs \<noteq> []"
  shows "mset (detect_genres_from_text ul slot ttl dsc tgs)
           = mset (matched_genres ul (joined_text ul ttl dsc tgs) GENRE_KEYWORDS)"
    and "distinct (detect_genres_from_text ul slot ttl dsc tgs)"
  using assms distinct_matched_genres [of ul "joined_text ul ttl dsc tgs"]
  by (simp_all add: detect_genres_unfold list_of_set_def)

lemma matched_genres_table_ordered:
  assumes "distinct (map fst table)"
  shows "filter (\<lambda>g. g \<in> set (map fst (filter P table))) (map fst table)
           = map fst (filter P table)"
proof -
  have "filter ((\<lambda>g. g \<in> set (map fst (filter P table))) \<circ> fst) table = filter P table"
  proof (rule filter_cong [OF refl])
    fix x assume x: "x \<in> set table"
    obtain g kws where gk: "x = (g, kws)" by (cases x)
    show "((\<lambda>g. g \<in> set (map fst (filter P table))) \<circ> fst) x = P x"
    proof
      assume "((\<lambda>g. g \<in> set (map fst (filter P table))) \<circ> fst) x"
      then obtain y where y: "y \<in> set table" "P y" "fst y = g"
        using gk by auto
      then have "y = x"
        using assms x gk by (metis eq_key_imp_eq_value prod.collapse)
      with y show "P x" by simp
    next
      assume "P x"
      with x show "((\<lambda>g. g \<in> set (map fst (filter P table))) \<circ> fst) x"
        by force
    qed
  qed
  then show ?thesis by (simp add: filter_map)
qed

text \<open>The genres in the order in which the loop finds them are in table order.\<close>

lemma table_ordered_matched: "table_ordered (matched_genres ul text GENRE_KEYWORDS)"
  unfolding table_ordered_def matched_genres_def
  by (rule matched_genres_table_ordered [OF distinct_genre_names, symmetric])

text \<open>
  Claim C1 says that the list returned is in the order of the genre table. The loop
  finds the genres in that order, but it stores them in a \<open>set()\<close>, and
  \<open>list(found_genres)\<close> lists them in the order of the set. For the title
  \<open>valorant mobile legends\<close> the loop finds \<open>MOBA\<close>, then \<open>FPS\<close>; in a process whose
  hashing puts \<open>FPS\<close> before \<open>MOBA\<close> in the set, the function returns \<open>FPS\<close>, then
  \<open>MOBA\<close>, which is not the table order, and the primary genre of the row is \<open>FPS\<close>.
\<close>

theorem detect_genres_order_failing_input:
  "matched_genres ascii_lower (joined_text ascii_lower (Some ''valorant mobile legends'') None None)
       GENRE_KEYWORDS
     = [''MOBA'', ''FPS'']
   \<and> detect_genres_from_text ascii_lower fps_first (Some ''valorant mobile legends'') None None
     = [''FPS'', ''MOBA'']
   \<and> \<not> table_ordered [''FPS'', ''MOBA'']
   \<and> first_or_none [''FPS'', ''MOBA''] = Some ''FPS''"
  by code_simp

text \<open>
  Claim C2, as the code has it. \<open>detect_genres_from_text\<close> returns the empty list
  exactly when the three fields are all absent or empty, or no keyword of any genre
  occurs in the lower-cased text. So it is empty whenever all three fields are absent or
  empty, but a non-empty field without a keyword gives the empty list too.
\<close>

theorem detect_genres_empty_iff:
  "detect_genres_from_text ul slot ttl dsc tgs = [] \<longleftrightarrow>
     (\<not> truthy ttl \<and> \<not> truthy dsc \<and> \<not> truthy tgs)
     \<or> (\<forall>(genre, keywords) \<in> set GENRE_KEYWORDS. \<forall>kw \<in> set keywords.
           \<not> contains (lower ul kw) (joined_text ul ttl dsc tgs))"
proof -
  let ?m = "matched_genres ul (joined_text ul ttl dsc tgs) GENRE_KEYWORDS"
  have parts: "text_parts ttl dsc tgs = [] \<longleftrightarrow>
      (\<not> truthy ttl \<and> \<not> truthy dsc \<and> \<not> truthy tgs)"
    by (auto simp: text_parts_def part_def truthy_def split: option.splits)
  have "?m = [] \<longleftrightarrow> (\<forall>(genre, keywords) \<in> set GENRE_KEYWORDS. \<forall>kw \<in> set keywords.
           \<not> contains (lower ul kw) (joined_text ul ttl dsc tgs))"
    by (auto simp: matched_genres_def filter_empty_conv any_keyword_iff)
  then show ?thesis
    by (simp add: detect_genres_unfold parts list_of_set_Nil_iff)
qed

text \<open>An empty title gives no genre; a description with a keyword gives one.\<close>

theorem detect_genres_empty_iff_witness:
  "detect_genres_from_text ascii_lower fps_first (Some []) None None = []
   \<and> detect_genres_from_text ascii_lower fps_first None
         (Some ''Main Mobile Legends rank push'') None
       = [''MOBA'']
   \<and> truthy (Some ''Main Mobile Legends rank push'')
   \<and> contains (lower ascii_lower ''mobile legends'')
       (joined_text ascii_lower None (Some ''Main Mobile Legends rank push'') None)"
proof -
  have e: "detect_genres_from_text ascii_lower fps_first None
         (Some ''Main Mobile Legends rank push'') None
       = [''MOBA'']"
    by code_simp
  have c: "contains (lower ascii_lower ''mobile legends'')
       (joined_text ascii_lower None (Some ''Main Mobile Legends rank push'') None)"
    by code_simp
  show ?thesis
    using detect_genres_empty_iff [of ascii_lower fps_first "Some []" None None] e c
    by (simp add: truthy_def)
qed

text \<open>Claim C2 as stated fails: the title \<open>hello\<close> is not empty and has no genre.\<close>

theorem detect_genres_empty_counterexample:
  "\<not> (detect_genres_from_text ascii_lower fps_first (Some ''hello'') None None = [] \<longleftrightarrow>
        \<not> truthy (Some ''hello'') \<and> \<not> truthy None \<and> \<not> truthy None)"
  by code_simp

section \<open>Properties of the deduplication\<close>

lemma keys_dict_setitem:
  "map fst (dict_setitem k v d) = (if k \<in> set (map fst d) then map fst d else map fst d @ [k])"
  by (induction d) force+

lemma keys_fold_setitem:
  "map fst (fold (\<lambda>k d. dict_setitem k () d) ks d) = add_keys ks (map fst d)"
  by (induction ks arbitrary: d) (simp_all add: keys_dict_setitem)

lemma dedup_ids_add_keys: "dedup_ids ks = add_keys ks []"
  by (simp add: dedup_ids_def dict_fromkeys_def keys_fold_setitem)

lemma set_add_keys: "set (add_keys ks acc) = set acc \<union> set ks"
  by (induction ks arbitrary: acc) auto

lemma distinct_add_keys: "distinct acc \<Longrightarrow> distinct (add_keys ks acc)"
  by (induction ks arbitrary: acc) auto


lemma add_keys_distinct:
  "distinct ks \<Longrightarrow> add_keys ks acc = acc @ filter (\<lambda>k. k \<notin> set acc) ks"
proof (induction ks arbitrary: acc)
  case Nil
  then show ?case by simp
next
  case (Cons k ks)
  then have d: "distinct ks" and n: "k \<notin> set ks" by simp_all
  have same: "filter (\<lambda>x. x \<noteq> k \<and> x \<notin> set acc) ks = filter (\<lambda>x. x \<notin> set acc) ks"
    using n by (intro filter_cong) auto
  show ?case using Cons.IH [OF d] same by auto
qed

lemma add_keys_append: "add_keys ks acc = acc @ add_keys (filter (\<lambda>k. k \<notin> set acc) ks) []"
proof (induction ks arbitrary: acc rule: length_induct)
  case (1 ks)
  show ?case
  proof (cases ks)
    case Nil
    then show ?thesis by simp
  next
    case (Cons k rest)
    show ?thesis
    proof (cases "k \<in> set acc")
      case True
      then show ?thesis using 1 Cons by simp
    next
      case False
      let ?r = "filter (\<lambda>x. x \<notin> set acc) rest"
      have a: "add_keys rest (acc @ [k])
                 = (acc @ [k]) @ add_keys (filter (\<lambda>x. x \<notin> set (acc @ [k])) rest) []"
        using 1 Cons by simp
      have "length ?r < length ks" using Cons by (simp add: le_imp_less_Suc)
      then have b: "add_keys ?r [k] = [k] @ add_keys (filter (\<lambda>x. x \<notin> set [k]) ?r) []"
        using 1 by blast
      have f: "filter (\<lambda>x. x \<notin> set (acc @ [k])) rest = filter (\<lambda>x. x \<notin> set [k]) ?r"
        by (simp add: conj_commute)
      show ?thesis using False Cons a b f by simp
    qed
  qed
qed

lemma dedup_ids_distinct: "distinct (dedup_ids ks)"
  by (simp add: dedup_ids_add_keys distinct_add_keys)

lemma dedup_ids_set: "set (dedup_ids ks) = set ks"
  by (simp add: dedup_ids_add_keys set_add_keys)


lemma dedup_ids_Nil: "dedup_ids [] = []"
  by (simp add: dedup_ids_add_keys)

lemma dedup_ids_Cons: "dedup_ids (k # ks) = k # dedup_ids (filter (\<lambda>x. x \<noteq> k) ks)"
  using add_keys_append [of ks "[k]"] by (simp add: dedup_ids_add_keys)



text \<open>
  Claim C5. Removing duplicates from a list of identifiers that has already been through
  \<open>list(dict.fromkeys(...))\<close> changes nothing.
\<close>

theorem dedup_ids_idempotent: "dedup_ids (dedup_ids video_ids) = dedup_ids video_ids"
proof -
  have "distinct (dedup_ids video_ids)"
    by (rule dedup_ids_distinct)
  then have "add_keys (dedup_ids video_ids) [] = dedup_ids video_ids"
    by (simp add: add_keys_distinct)
  then show ?thesis by (simp add: dedup_ids_add_keys)
qed

section \<open>Properties of the classification and of the filter\<close>

lemma map2_map_right: "map2 f xs (map g xs) = map (\<lambda>x. f x (g x)) xs"
  by (induction xs) auto

lemma map2_map_map: "map2 f (map h xs) (map g xs) = map (\<lambda>x. f (h x) (g x)) xs"
  by (induction xs) auto

lemma add_primary_genre_column_map:
  "add_primary_genre_column ul slot df_videos = map (tag_row ul slot) df_videos"
  by (simp add: add_primary_genre_column_def set_primary_genre_def set_genres_list_def
      Let_def map2_map_right map2_map_map tag_row_def comp_def)

lemma tag_row_fields:
  "genres_list (tag_row ul slot row) = row_genres ul slot row"
  "primary_genre (tag_row ul slot row) = first_or_none (row_genres ul slot row)"
  "video.truncate (tag_row ul slot row) = row"
  by (simp_all add: tag_row_def video.defs with_genres.defs tagged.defs)

lemma first_or_none_member: "first_or_none gs = Some g \<Longrightarrow> g \<in> set gs"
  by (auto simp: first_or_none_def split: list.splits)

lemma first_or_none_None: "first_or_none gs = None \<longleftrightarrow> gs = []"
  by (auto simp: first_or_none_def split: list.splits)

text \<open>
  Claim C3. In every row of the table that \<open>add_primary_genre_column\<close> returns, the
  primary genre is an element of the row's \<open>genres_list\<close> when that list is not empty,
  and it is \<open>None\<close> exactly when the list is empty.
\<close>

theorem primary_genre_in_genres_list:
  "\<forall>row \<in> set (add_primary_genre_column ul slot df_videos).
     (genres_list row \<noteq> [] \<longrightarrow>
        (\<exists>g. primary_genre row = Some g \<and> g \<in> set (genres_list row)))
     \<and> (primary_genre row = None \<longleftrightarrow> genres_list row = [])"
proof
  fix row assume "row \<in> set (add_primary_genre_column ul slot df_videos)"
  then obtain v where row: "row = tag_row ul slot v"
    by (auto simp: add_primary_genre_column_map)
  let ?gs = "row_genres ul slot v"
  have none: "first_or_none ?gs = None \<longleftrightarrow> ?gs = []"
    by (rule first_or_none_None)
  have "?gs \<noteq> [] \<longrightarrow> (\<exists>g. first_or_none ?gs = Some g \<and> g \<in> set ?gs)"
    using none first_or_none_member [of ?gs] by (cases "first_or_none ?gs") auto
  then show "(genres_list row \<noteq> [] \<longrightarrow>
        (\<exists>g. primary_genre row = Some g \<and> g \<in> set (genres_list row)))
     \<and> (primary_genre row = None \<longleftrightarrow> genres_list row = [])"
    using none by (simp add: row tag_row_fields)
qed

lemma demo_genres:
  "map (\<lambda>row. (genres_list row, primary_genre row)) (add_primary_genre_column ascii_lower fps_first demo_videos)
     = [([''MOBA''], Some ''MOBA''), ([], None), ([''FPS''], Some ''FPS'')]"
  by code_simp

text \<open>Three rows: one genre, no genre, one genre found in the tags.\<close>

theorem primary_genre_in_genres_list_witness:
  "map (\<lambda>row. (genres_list row, primary_genre row))
       (add_primary_genre_column ascii_lower fps_first demo_videos)
     = [([''MOBA''], Some ''MOBA''), ([], None), ([''FPS''], Some ''FPS'')]
   \<and> ''MOBA'' \<in> set [''MOBA'']"
  using primary_genre_in_genres_list [of ascii_lower fps_first demo_videos] demo_genres
  by simp

lemma map_filter_primary:
  "List.map_filter id (map primary_genre df) = List.map_filter primary_genre df"
  by (induction df) (auto simp: List.map_filter_def)

lemma count_primary:
  "count_list (List.map_filter primary_genre df) g = genre_count df g"
  by (induction df) (auto simp: List.map_filter_def genre_count_def)

lemma set_map_filter_primary:
  "g \<in> set (List.map_filter primary_genre df) \<longleftrightarrow> (\<exists>row \<in> set df. primary_genre row = Some g)"
  by (induction df) (auto simp: List.map_filter_def)

lemma genre_count_dropna: "genre_count (dropna_primary_genre df) g = genre_count df g"
proof -
  have "filter (\<lambda>row. primary_genre row = Some g) (dropna_primary_genre df)
          = filter (\<lambda>row. primary_genre row = Some g) df"
    unfolding dropna_primary_genre_def filter_filter
    by (rule filter_cong) auto
  then show ?thesis by (simp add: genre_count_def)
qed

lemma set_valid_genres_of:
  "set (valid_genres_of (value_counts col) min_samples)
     = {g \<in> set (List.map_filter id col).
          min_samples \<le> int (count_list (List.map_filter id col) g)}"
  by (force simp: valid_genres_of_def value_counts_def Let_def)

lemma valid_genres_member:
  "g \<in> set (valid_genres_of (value_counts (map primary_genre df)) min_samples) \<longleftrightarrow>
     (\<exists>row \<in> set df. primary_genre row = Some g) \<and> min_samples \<le> int (genre_count df g)"
  by (simp add: set_valid_genres_of map_filter_primary count_primary set_map_filter_primary)

lemma filter_isin_kept:
  "filter_isin (dropna_primary_genre df)
       (valid_genres_of (value_counts (map primary_genre (dropna_primary_genre df))) min_samples)
     = filter (kept df min_samples) df"
proof -
  let ?d = "dropna_primary_genre df"
  have "filter (\<lambda>row. isin (primary_genre row)
            (valid_genres_of (value_counts (map primary_genre ?d)) min_samples)) ?d
        = filter (kept df min_samples) ?d"
  proof (rule filter_cong [OF refl])
    fix row assume "row \<in> set ?d"
    then show "isin (primary_genre row)
            (valid_genres_of (value_counts (map primary_genre ?d)) min_samples)
          = kept df min_samples row"
      by (auto simp: isin_def kept_def valid_genres_member genre_count_dropna
          split: option.splits)
  qed
  also have "\<dots> = filter (kept df min_samples) df"
    unfolding dropna_primary_genre_def filter_filter
    by (rule filter_cong) (auto simp: kept_def split: option.splits)
  finally show ?thesis by (simp add: filter_isin_def)
qed

lemma clean_for_modelling_filter:
  "clean_for_modelling df min_samples = map text_row (filter (kept df min_samples) df)"
  by (simp add: clean_for_modelling_def Let_def filter_isin_kept set_text_def map2_map_right
      text_row_def)

lemma text_row_fields:
  "primary_genre (text_row row) = primary_genre row"
  "tagged.truncate (text_row row) = row"
  "text_col (text_row row) = combine_text row"
  by (simp_all add: text_row_def tagged.defs model_ready.defs)

lemma length_filter_mono:
  "(\<And>x. x \<in> set xs \<Longrightarrow> P x \<Longrightarrow> Q x) \<Longrightarrow> length (filter P xs) \<le> length (filter Q xs)"
  by (induction xs) auto

text \<open>
  Claim C4. For thresholds \<open>m1 \<le> m2\<close>, \<open>clean_for_modelling\<close> with \<open>min_samples = m2\<close>
  returns at most as many rows as with \<open>min_samples = m1\<close>.
\<close>

theorem clean_for_modelling_monotone:
  assumes "m1 \<le> m2"
  shows "length (clean_for_modelling df m2) \<le> length (clean_for_modelling df m1)"
proof -
  have "length (filter (kept df m2) df) \<le> length (filter (kept df m1) df)"
  proof (rule length_filter_mono)
    fix row assume "kept df m2 row"
    then show "kept df m1 row"
      using assms by (auto simp: kept_def split: option.splits)
  qed
  then show ?thesis by (simp add: clean_for_modelling_filter)
qed

text \<open>
  Claim C9. When a genre is the primary genre of exactly 19 rows of the table, no row of
  that genre is in the result for \<open>min_samples = 20\<close>, and all 19 are in the result for
  \<open>min_samples = 19\<close>: without the added \<open>text\<close> column, the rows of that genre in the
  result are the rows of that genre in the table.
\<close>

theorem clean_for_modelling_nineteen:
  assumes "length (filter (\<lambda>row. primary_genre row = Some g) df) = 19"
  shows "(\<forall>row \<in> set (clean_for_modelling df 20). primary_genre row \<noteq> Some g)
       \<and> filter (\<lambda>row. primary_genre row = Some g)
             (map tagged.truncate (clean_for_modelling df 19))
           = filter (\<lambda>row. primary_genre row = Some g) df"
proof -
  have c: "genre_count df g = 19"
    using assms by (simp add: genre_count_def)
  have "\<forall>row \<in> set (filter (kept df 20) df). primary_genre row \<noteq> Some g"
    using c by (auto simp: kept_def)
  then have out: "\<forall>row \<in> set (clean_for_modelling df 20). primary_genre row \<noteq> Some g"
    by (auto simp: clean_for_modelling_filter text_row_fields)
  have "map tagged.truncate (clean_for_modelling df 19) = filter (kept df 19) df"
    by (simp add: clean_for_modelling_filter comp_def text_row_fields)
  moreover have "filter (\<lambda>row. primary_genre row = Some g) (filter (kept df 19) df)
      = filter (\<lambda>row. primary_genre row = Some g) df"
    unfolding filter_filter
    by (rule filter_cong) (use c in \<open>auto simp: kept_def\<close>)
  ultimately show ?thesis using out by simp
qed

lemma demo_lengths:
  "length (clean_for_modelling demo_table 20) = 20"
  "length (clean_for_modelling demo_table 19) = 39"
  "length (filter (\<lambda>row. primary_genre row = Some ''FPS'') demo_table) = 19"
  "map primary_genre (clean_for_modelling demo_table 20) = replicate 20 (Some ''MOBA'')"
  by code_simp+

theorem clean_for_modelling_monotone_witness:
  "(19::int) \<le> 20
   \<and> length (clean_for_modelling demo_table 20) = 20
   \<and> length (clean_for_modelling demo_table 19) = 39"
  using clean_for_modelling_monotone [of 19 20 demo_table] demo_lengths
  by simp

theorem clean_for_modelling_nineteen_witness:
  "length (filter (\<lambda>row. primary_genre row = Some ''FPS'') demo_table) = 19
   \<and> map primary_genre (clean_for_modelling demo_table 20) = replicate 20 (Some ''MOBA'')
   \<and> length (filter (\<lambda>row. primary_genre row = Some ''FPS'')
         (map tagged.truncate (clean_for_modelling demo_table 19))) = 19"
  using clean_for_modelling_nineteen [of "''FPS''" demo_table] demo_lengths
  by simp

section \<open>Properties of the search\<close>





text \<open>A result does not depend on the fuel: more fuel gives the same.\<close>

lemma search_loop_more_fuel:
  "search_loop fuel ep s api_key query max_results pa pb video_ids tok fetched = Some r \<Longrightarrow>
   search_loop (fuel + k) ep s api_key query max_results pa pb video_ids tok fetched = Some r"
proof (induction fuel arbitrary: s video_ids tok fetched)
  case 0
  then show ?case by simp
next
  case (Suc fuel)
  show ?case
  proof (cases "fetched < max_results")
    case False
    with Suc.prems show ?thesis by simp
  next
    case True
    let ?params = "search_request api_key query (min 50 (max_results - fetched)) pa pb tok"
    obtain resp s' where ep: "ep s ?params = (resp, s')" by (cases "ep s ?params")
    show ?thesis
    proof (cases resp)
      case None
      with Suc.prems True ep show ?thesis by (simp add: Let_def)
    next
      case (Some data)
      show ?thesis
      proof (cases "those (sr_items data)")
        case None
        with Suc.prems True ep Some show ?thesis by (simp add: Let_def)
      next
        case ids: (Some ids)
        show ?thesis
        proof (cases "truthy (sr_nextPageToken data)")
          case False
          with Suc.prems True ep Some ids show ?thesis by (simp add: Let_def)
        next
          case tk: True
          with Suc.prems True ep Some ids have
            "search_loop fuel ep s' api_key query max_results pa pb (video_ids @ ids)
               (sr_nextPageToken data) (fetched + length (sr_items data)) = Some r"
            by (simp add: Let_def)
          from Suc.IH [OF this] show ?thesis
            using True ep Some ids tk by (simp add: Let_def)
        qed
      qed
    qed
  qed
qed










section \<open>Properties of the details fetch\<close>

lemma range50_unfold: "range50 i stop = (if i < stop then i # range50 (i + 50) stop else [])"
  by (rule range50.simps)

lemma concat_chunks_from:
  "i \<le> length xs \<Longrightarrow>
   concat (map (\<lambda>j. take 50 (drop j xs)) (range50 i (length xs))) = drop i xs"
proof (induction i "length xs" rule: range50.induct)
  case (1 i)
  show ?case
  proof (cases "i < length xs")
    case False
    with 1 show ?thesis by (subst range50_unfold) simp
  next
    case True
    show ?thesis
    proof (cases "i + 50 \<le> length xs")
      case le: True
      have "concat (map (\<lambda>j. take 50 (drop j xs)) (range50 (i + 50) (length xs)))
              = drop (i + 50) xs"
        using 1 True le by simp
      moreover have "take 50 (drop i xs) @ drop (i + 50) xs = drop i xs"
        by (metis add.commute append_take_drop_id drop_drop)
      ultimately show ?thesis
        using True by (subst range50_unfold) simp
    next
      case False
      then have e: "range50 (i + 50) (length xs) = []"
        by (subst range50_unfold) simp
      have "take 50 (drop i xs) = drop i xs"
        using False by simp
      then show ?thesis
        using True e by (subst range50_unfold) simp
    qed
  qed
qed

lemma concat_chunks: "concat (chunks video_ids) = video_ids"
  using concat_chunks_from [of 0 video_ids] by (simp add: chunks_def)

lemma length_chunk: "c \<in> set (chunks video_ids) \<Longrightarrow> length c \<le> 50"
  by (auto simp: chunks_def)

lemma range50_less: "j \<in> set (range50 i stop) \<Longrightarrow> j < stop"
proof (induction i stop rule: range50.induct)
  case (1 i stop)
  from 1(2) have "i < stop \<and> (j = i \<or> j \<in> set (range50 (i + 50) stop))"
    by (subst (asm) range50_unfold) (auto split: if_splits)
  with 1(1) show ?case by auto
qed

lemma chunk_nonempty: "c \<in> set (chunks video_ids) \<Longrightarrow> c \<noteq> []"
  by (auto simp: chunks_def dest: range50_less)

text \<open>The requests of the loop: those already sent, then one for each chunk still to
  come, up to the chunk on which the call ends.\<close>

lemma stats_loop_requests:
  "stats_loop parse_int ep api_key video_ids starts s records sent = (res, reqs) \<Longrightarrow>
   (case res of
      Inr rows \<Rightarrow>
        reqs = sent @ map (\<lambda>i. details_request api_key (take 50 (drop i video_ids))) starts
    | Inl e \<Rightarrow>
        (\<exists>n < length starts. reqs = sent
           @ map (\<lambda>i. details_request api_key (take 50 (drop i video_ids))) (take (Suc n) starts)))"
proof (induction starts arbitrary: s records sent)
  case Nil
  then show ?case by auto
next
  case (Cons i starts)
  let ?params = "details_request api_key (take 50 (drop i video_ids))"
  obtain resp s' where ep: "ep s ?params = (resp, s')" by (cases "ep s ?params")
  show ?case
  proof (cases resp)
    case None
    with Cons.prems ep have "res = Inl HTTPError" "reqs = sent @ [?params]"
      by (simp_all add: Let_def)
    then show ?thesis by auto
  next
    case (Some items)
    show ?thesis
    proof (cases "make_records parse_int items")
      case (Inl e)
      with Cons.prems ep Some have "res = Inl e" "reqs = sent @ [?params]"
        by (simp_all add: Let_def)
      then show ?thesis by auto
    next
      case (Inr new)
      with Cons.prems ep Some have
        "stats_loop parse_int ep api_key video_ids starts s' (records @ new) (sent @ [?params])
           = (res, reqs)"
        by (simp add: Let_def)
      from Cons.IH [OF this] show ?thesis
        by (cases res) (auto intro: exI [of _ "Suc _"])
    qed
  qed
qed

text \<open>
  Claim C7. The chunks \<open>video_ids[i:i+50]\<close> of \<open>youtube_get_videos_stats\<close> are
  consecutive pieces of the list: their concatenation is the list, and each has at least
  one and at most 50 identifiers. A call that returns its table has sent exactly one
  details request for each chunk, in the order of the chunks. A call that ends with an
  error has sent the requests of the chunks up to the one on which it ended.
\<close>

theorem youtube_get_videos_stats_chunks:
  "concat (chunks video_ids) = video_ids
   \<and> (\<forall>chunk \<in> set (chunks video_ids). chunk \<noteq> [] \<and> length chunk \<le> 50)
   \<and> (\<forall>rows reqs.
         youtube_get_videos_stats parse_int ep s API_KEY video_ids = (Inr rows, reqs) \<longrightarrow>
           (\<exists>api_key. API_KEY = Some api_key
              \<and> reqs = map (details_request api_key) (chunks video_ids)))
   \<and> (\<forall>e reqs.
         youtube_get_videos_stats parse_int ep s API_KEY video_ids = (Inl e, reqs) \<longrightarrow>
           (\<exists>api_key n. n \<le> length (chunks video_ids)
              \<and> reqs = map (details_request api_key) (take n (chunks video_ids))))"
proof (intro conjI ballI allI impI)
  show "concat (chunks video_ids) = video_ids" by (rule concat_chunks)
next
  fix chunk assume "chunk \<in> set (chunks video_ids)"
  then show "chunk \<noteq> []" and "length chunk \<le> 50"
    by (simp_all add: chunk_nonempty length_chunk)
next
  fix rows reqs
  assume run: "youtube_get_videos_stats parse_int ep s API_KEY video_ids = (Inr rows, reqs)"
  then obtain api_key where key: "API_KEY = Some api_key"
    and loop: "stats_loop parse_int ep api_key video_ids (range50 0 (length video_ids)) s [] []
                 = (Inr rows, reqs)"
    by (auto simp: youtube_get_videos_stats_def split: option.splits if_splits)
  from stats_loop_requests [OF loop]
  have "reqs = map (details_request api_key) (chunks video_ids)"
    by (simp add: chunks_def comp_def)
  with key show "\<exists>api_key. API_KEY = Some api_key
      \<and> reqs = map (details_request api_key) (chunks video_ids)"
    by simp
next
  fix e reqs
  assume run: "youtube_get_videos_stats parse_int ep s API_KEY video_ids = (Inl e, reqs)"
  show "\<exists>api_key n. n \<le> length (chunks video_ids)
      \<and> reqs = map (details_request api_key) (take n (chunks video_ids))"
  proof (cases "\<exists>api_key. API_KEY = Some api_key \<and> api_key \<noteq> []")
    case False
    with run have "reqs = []"
      by (auto simp: youtube_get_videos_stats_def split: option.splits if_splits)
    then have "0 \<le> length (chunks video_ids)
        \<and> reqs = map (details_request []) (take 0 (chunks video_ids))"
      by simp
    then show ?thesis by blast
  next
    case True
    then obtain api_key where key: "API_KEY = Some api_key" "api_key \<noteq> []" by blast
    with run have loop:
      "stats_loop parse_int ep api_key video_ids (range50 0 (length video_ids)) s [] []
         = (Inl e, reqs)"
      by (simp add: youtube_get_videos_stats_def)
    from stats_loop_requests [OF loop] obtain n where
      n: "n < length (range50 0 (length video_ids))"
      and reqs: "reqs = map (\<lambda>i. details_request api_key (take 50 (drop i video_ids)))
                   (take (Suc n) (range50 0 (length video_ids)))"
      by auto
    have "Suc n \<le> length (chunks video_ids)"
      using n by (simp add: chunks_def)
    moreover have "reqs = map (details_request api_key) (take (Suc n) (chunks video_ids))"
      by (simp add: reqs chunks_def take_map comp_def)
    ultimately show ?thesis by blast
  qed
qed

lemma demo_chunks: "map length (chunks demo_ids) = [50, 1]"
  by code_simp

lemma demo_stats_run:
  "map_prod (map_sum id (map video_id)) (map dp_id)
     (youtube_get_videos_stats decimal demo_details () (Some ''key'') demo_ids)
   = (Inr [''c'', ''c''], [join '','' (take 50 demo_ids), join '','' (drop 50 demo_ids)])"
  by code_simp


text \<open>Fifty-one identifiers: a chunk of fifty and a chunk of one, and two requests.\<close>

theorem youtube_get_videos_stats_chunks_witness:
  "map length (chunks demo_ids) = [50, 1]
   \<and> concat (chunks demo_ids) = demo_ids
   \<and> map_prod (map_sum id (map video_id)) (map dp_id)
       (youtube_get_videos_stats decimal demo_details () (Some ''key'') demo_ids)
     = (Inr [''c'', ''c''], [join '','' (take 50 demo_ids), join '','' (drop 50 demo_ids)])"
  using youtube_get_videos_stats_chunks [of demo_ids decimal demo_details "()" "Some ''key''"]
    demo_chunks demo_stats_run
  by simp

lemma detect_valorant_fps:
  "detect_genres_from_text ul slot None None (Some ''valorant|fps'') = [''FPS'']"
  by code_simp

text \<open>
  Claim C8. For an item whose \<open>tags\<close> are the list \<open>["valorant", "fps"]\<close>, the
  serialised tags, and the \<open>tags\<close> column of the record made of the item, are the string
  \<open>valorant|fps\<close>; and \<open>detect_genres_from_text\<close> on that string alone, with no title
  and no description, returns exactly \<open>FPS\<close>.
\<close>

theorem tags_serialised_example:
  assumes "sn_tags snippet = Some (TagsList [''valorant'', ''fps''])"
  shows "tags_joined snippet = ''valorant|fps''
       \<and> (\<forall>item row. it_snippet item = Some snippet \<longrightarrow>
             make_record parse_int item = Inr row \<longrightarrow> tags row = ''valorant|fps'')
       \<and> detect_genres_from_text ul slot None None (Some ''valorant|fps'') = [''FPS'']"
proof -
  have j: "tags_joined snippet = ''valorant|fps''"
    using assms by (simp add: tags_joined_def)
  have "tags row = ''valorant|fps''"
    if "it_snippet item = Some snippet" "make_record parse_int item = Inr row" for item row
    using that j
    by (auto simp: make_record_def snippet_of_def Let_def split: option.splits sum.splits)
  then show ?thesis using j detect_valorant_fps by blast
qed

lemma demo_record:
  "make_record decimal demo_item
     = Inr \<lparr>video_id = ''c'', title = Some ''Ranked'', description = None,
            tags = ''valorant|fps'', channel_id = None, channel_title = None,
            published_at = None, view_count = 1500, like_count = 0, comment_count = 7,
            duration = Some ''PT4M''\<rparr>"
  by code_simp

text \<open>The example item has these tags.\<close>

theorem tags_serialised_example_witness:
  "sn_tags (snippet_of demo_item) = Some (TagsList [''valorant'', ''fps''])
   \<and> tags_joined (snippet_of demo_item) = ''valorant|fps''
   \<and> map_sum id tags (make_record decimal demo_item) = Inr ''valorant|fps''
   \<and> detect_genres_from_text ascii_lower fps_first None None (Some ''valorant|fps'') = [''FPS'']"
proof -
  have s: "sn_tags (snippet_of demo_item) = Some (TagsList [''valorant'', ''fps''])"
    by (simp add: snippet_of_def demo_item_def)
  show ?thesis
    using tags_serialised_example [OF s, of decimal ascii_lower fps_first] s demo_record
    by simp
qed

section \<open>The tables a function changes\<close>

lemma add_primary_genre_column_obj_run:
  assumes "frame_at st a = Some (Videos rows)"
  shows "add_primary_genre_column_obj ul slot a st
           = Some (length st, st @ [Tagged (add_primary_genre_column ul slot rows)])"
proof -
  from assms have a: "a < length st" "st ! a = Videos rows"
    by (auto simp: frame_at_def split: if_splits)
  let ?g = "map (row_genres ul slot) rows"
  let ?p = "map first_or_none ?g"
  have c: "copy_frame a st = Some (length st, st @ [Videos rows])"
    using a by (simp add: copy_frame_def frame_at_def new_frame_def)
  have g: "assign_genres_list (length st) ?g (st @ [Videos rows])
             = Some (st @ [WithGenres (set_genres_list rows ?g)])"
    by (simp add: assign_genres_list_def frame_at_def)
  have p: "assign_primary_genre (length st) ?p (st @ [WithGenres (set_genres_list rows ?g)])
             = Some (st @ [Tagged (set_primary_genre (set_genres_list rows ?g) ?p)])"
    by (simp add: assign_primary_genre_def frame_at_def)
  show ?thesis
    using assms c g p
    by (simp add: add_primary_genre_column_obj_def add_primary_genre_column_def Let_def)
qed

lemma add_primary_genre_column_obj_Some:
  "add_primary_genre_column_obj ul slot a st = Some r \<Longrightarrow> \<exists>rows. frame_at st a = Some (Videos rows)"
  by (auto simp: add_primary_genre_column_obj_def split: option.splits frame.splits)

lemma clean_for_modelling_obj_run:
  assumes "frame_at st a = Some (Tagged rows)"
  shows "clean_for_modelling_obj a min_samples st
           = Some (length st + 3,
               st @ [Tagged (dropna_primary_genre rows), Tagged (dropna_primary_genre rows),
                     Tagged (filter_isin (dropna_primary_genre rows)
                        (valid_genres_of
                           (value_counts (map primary_genre (dropna_primary_genre rows)))
                           min_samples)),
                     ModelReady (clean_for_modelling rows min_samples)])"
  using assms
  by (simp add: clean_for_modelling_obj_def clean_for_modelling_def new_frame_def
      copy_frame_def frame_at_def assign_text_def Let_def nth_append list_update_append)

lemma clean_for_modelling_obj_Some:
  "clean_for_modelling_obj a m st = Some r \<Longrightarrow> \<exists>rows. frame_at st a = Some (Tagged rows)"
  by (auto simp: clean_for_modelling_obj_def split: option.splits frame.splits)


text \<open>
  Claim C10. \<open>add_primary_genre_column\<close> and \<open>clean_for_modelling\<close> leave the table
  passed to them as it was. Whenever either returns, the table it returns is a new one
  (its address differs from the argument and was not in use before the call), every table
  of the store before the call is still there unchanged, and so the argument holds the
  same rows and columns as before. On a table of video rows, respectively of tagged rows,
  the call does return, and the new table holds the rows with the added columns.
\<close>

theorem tables_left_unchanged:
  "(\<forall>a' st'. add_primary_genre_column_obj ul slot a st = Some (a', st') \<longrightarrow>
       a' \<noteq> a \<and> frame_at st a' = None \<and> take (length st) st' = st
       \<and> frame_at st' a = frame_at st a)
   \<and> (\<forall>a' st'. clean_for_modelling_obj a min_samples st = Some (a', st') \<longrightarrow>
       a' \<noteq> a \<and> frame_at st a' = None \<and> take (length st) st' = st
       \<and> frame_at st' a = frame_at st a)
   \<and> (\<forall>rows. frame_at st a = Some (Videos rows) \<longrightarrow>
         (\<exists>a' st'. add_primary_genre_column_obj ul slot a st = Some (a', st')
            \<and> frame_at st' a' = Some (Tagged (add_primary_genre_column ul slot rows))))
   \<and> (\<forall>rows. frame_at st a = Some (Tagged rows) \<longrightarrow>
         (\<exists>a' st'. clean_for_modelling_obj a min_samples st = Some (a', st')
            \<and> frame_at st' a' = Some (ModelReady (clean_for_modelling rows min_samples))))"
proof (intro conjI allI impI)
  fix a' st'
  assume run: "add_primary_genre_column_obj ul slot a st = Some (a', st')"
  then obtain rows where f: "frame_at st a = Some (Videos rows)"
    using add_primary_genre_column_obj_Some by blast
  then have a: "a < length st" by (simp add: frame_at_def split: if_splits)
  from run add_primary_genre_column_obj_run [OF f, of ul slot]
  have r: "a' = length st" "st' = st @ [Tagged (add_primary_genre_column ul slot rows)]"
    by simp_all
  show "a' \<noteq> a" using a r by simp
  show "frame_at st a' = None" using r by (simp add: frame_at_def)
  show "take (length st) st' = st" using r by simp
  show "frame_at st' a = frame_at st a" using a r by (simp add: frame_at_def nth_append)
next
  fix a' st'
  assume run: "clean_for_modelling_obj a min_samples st = Some (a', st')"
  then obtain rows where f: "frame_at st a = Some (Tagged rows)"
    using clean_for_modelling_obj_Some by blast
  then have a: "a < length st" by (simp add: frame_at_def split: if_splits)
  from run clean_for_modelling_obj_run [OF f, of min_samples]
  obtain new where r: "a' = length st + 3" "st' = st @ new"
    by auto
  show "a' \<noteq> a" using a r by simp
  show "frame_at st a' = None" using r by (simp add: frame_at_def)
  show "take (length st) st' = st" using r by simp
  show "frame_at st' a = frame_at st a" using a r by (simp add: frame_at_def nth_append)
next
  fix rows assume f: "frame_at st a = Some (Videos rows)"
  show "\<exists>a' st'. add_primary_genre_column_obj ul slot a st = Some (a', st')
      \<and> frame_at st' a' = Some (Tagged (add_primary_genre_column ul slot rows))"
    using add_primary_genre_column_obj_run [OF f, of ul slot] by (simp add: frame_at_def)
next
  fix rows assume f: "frame_at st a = Some (Tagged rows)"
  show "\<exists>a' st'. clean_for_modelling_obj a min_samples st = Some (a', st')
      \<and> frame_at st' a' = Some (ModelReady (clean_for_modelling rows min_samples))"
    using clean_for_modelling_obj_run [OF f, of min_samples]
    by (simp add: frame_at_def nth_append)
qed

text \<open>A store of two tables: each function returns a new address, and the two tables
  are as before.\<close>

theorem tables_left_unchanged_witness:
  "map_option (\<lambda>(a', st'). (a', take 2 st'))
       (add_primary_genre_column_obj ascii_lower fps_first 0 [Videos demo_videos, Tagged demo_table])
     = Some (2, [Videos demo_videos, Tagged demo_table])
   \<and> map_option (\<lambda>(a', st'). (a', take 2 st'))
       (clean_for_modelling_obj 1 20 [Videos demo_videos, Tagged demo_table])
     = Some (5, [Videos demo_videos, Tagged demo_table])"
proof -
  let ?st = "[Videos demo_videos, Tagged demo_table]"
  have v: "frame_at ?st 0 = Some (Videos demo_videos)"
    and t: "frame_at ?st 1 = Some (Tagged demo_table)"
    by (simp_all add: frame_at_def)
  show ?thesis
    using tables_left_unchanged [of ascii_lower fps_first 0 ?st 20]
      tables_left_unchanged [of ascii_lower fps_first 1 ?st 20]
      add_primary_genre_column_obj_run [OF v, of ascii_lower fps_first]
      clean_for_modelling_obj_run [OF t, of 20]
    by simp
qed

end
